theory Spec2Isabelle
  imports Main "HOL-Library.Log_Nat"
begin

section \<open>JavaScript numbers\<close>

text \<open>
  The counter \<^verbatim>\<open>msgCount\<close> is whatever the status snapshot delivers: a JavaScript number
  (an IEEE 754 double) or nothing at all when the field is absent. Every finite double is an
  integer multiple of \<open>2\<^sup>-\<^sup>1\<^sup>0\<^sup>7\<^sup>4\<close>, so \<open>Num k\<close> stands for the double
  \<open>k \<times> 2\<^sup>-\<^sup>1\<^sup>0\<^sup>7\<^sup>4\<close>; \<open>js_int n\<close> is the double of the integer \<open>n\<close>. Negative
  zero is not told apart from zero. A field that is absent reads as \<^verbatim>\<open>undefined\<close>, which
  arithmetic and comparison turn into \<^verbatim>\<open>NaN\<close>. Values of other types (strings, objects)
  are outside the model.
\<close>

datatype jsnum = Num int | PosInfinity | NegInfinity | NaN | Undefined

definition js_int :: "int \<Rightarrow> jsnum" where
  "js_int n = Num (n * 2 ^ 1074)"

text \<open>
  Rounding to the nearest double, ties to the even significand: a double has 53 significant
  bits, so an exact result \<open>k\<close> (in units of \<open>2\<^sup>-\<^sup>1\<^sup>0\<^sup>7\<^sup>4\<close>) of more than 53 bits loses its
  lowest \<open>s\<close> bits. A rounded magnitude of \<open>2\<^sup>1\<^sup>0\<^sup>2\<^sup>4\<close> or more is an infinity.
\<close>

definition round_half_even :: "int \<Rightarrow> nat \<Rightarrow> int" where
  "round_half_even k s =
     (let q = k div 2 ^ s; r = k mod 2 ^ s
      in if 2 * r < 2 ^ s then q
         else if 2 ^ s < 2 * r then q + 1
         else if even q then q else q + 1)"

definition round_double :: "int \<Rightarrow> jsnum" where
  "round_double k =
     (let s = nat (bitlen \<bar>k\<bar> - 53);
          r = round_half_even k s * 2 ^ s
      in if 2 ^ 2098 \<le> \<bar>r\<bar> then (if 0 < r then PosInfinity else NegInfinity) else Num r)"

text \<open>The operators \<^verbatim>\<open>+\<close>, \<^verbatim>\<open><\<close> and \<^verbatim>\<open>>=\<close> on such values.\<close>

fun js_add :: "jsnum \<Rightarrow> jsnum \<Rightarrow> jsnum" where
  "js_add (Num a) (Num b) = round_double (a + b)"
| "js_add NaN y = NaN"
| "js_add x NaN = NaN"
| "js_add Undefined y = NaN"
| "js_add x Undefined = NaN"
| "js_add PosInfinity NegInfinity = NaN"
| "js_add NegInfinity PosInfinity = NaN"
| "js_add PosInfinity y = PosInfinity"
| "js_add x PosInfinity = PosInfinity"
| "js_add NegInfinity y = NegInfinity"
| "js_add x NegInfinity = NegInfinity"

fun js_lt :: "jsnum \<Rightarrow> jsnum \<Rightarrow> bool" where
  "js_lt (Num a) (Num b) = (a < b)"
| "js_lt (Num a) PosInfinity = True"
| "js_lt NegInfinity (Num b) = True"
| "js_lt NegInfinity PosInfinity = True"
| "js_lt x y = False"

fun js_ge :: "jsnum \<Rightarrow> jsnum \<Rightarrow> bool" where
  "js_ge (Num a) (Num b) = (b \<le> a)"
| "js_ge (Num a) NegInfinity = True"
| "js_ge PosInfinity (Num b) = True"
| "js_ge PosInfinity PosInfinity = True"
| "js_ge PosInfinity NegInfinity = True"
| "js_ge NegInfinity NegInfinity = True"
| "js_ge x y = False"

section \<open>Configuration of the gated chat component\<close>

text \<open>
  The gated master/client chat is the React component \<^verbatim>\<open>App\<close> of \<^verbatim>\<open>src/pC.js\<close>.
  Its module-level constants are taken as they are written there.
\<close>

definition HARDCODED_CLIENT_ID :: string where
  "HARDCODED_CLIENT_ID = ''client_user_12345''"

definition SPECIAL_CODE :: string where
  "SPECIAL_CODE = ''UNLOCK123''"

definition MAX_MESSAGES_BEFORE_LOCK :: jsnum where
  "MAX_MESSAGES_BEFORE_LOCK = js_int 3"

text \<open>
  The two path helpers. \<^verbatim>\<open>appId\<close> is a global of the hosting page and is carried in the
  session record below.
\<close>

definition getChatCollectionPath :: "string \<Rightarrow> string \<Rightarrow> string \<Rightarrow> string" where
  "getChatCollectionPath app mId cId =
     ''/artifacts/'' @ app @ ''/public/data/chats/'' @ mId @ ''_'' @ cId @ ''/messages''"

definition getStatusDocPath :: "string \<Rightarrow> string \<Rightarrow> string" where
  "getStatusDocPath app uid = ''artifacts/'' @ app @ ''/public/data/users/'' @ uid"

text \<open>
  The names the module binds from \<^verbatim>\<open>firebase/firestore\<close> (lines 4 to 19 of the source),
  and every other name bound at module level. A call of a name that is bound neither there
  nor as a local of the calling function raises a \<^verbatim>\<open>ReferenceError\<close> when it is
  evaluated.
\<close>

definition firestore_imports :: "string list" where
  "firestore_imports =
     [''getFirestore'', ''collection'', ''query'', ''orderBy'', ''limit'', ''onSnapshot'',
      ''addDoc'', ''doc'', ''setDoc'', ''updateDoc'', ''getDoc'', ''deleteDoc'', ''where'',
      ''writeBatch'']"

definition module_scope :: "string list" where
  "module_scope =
     [''React'', ''useState'', ''useEffect'', ''useRef'', ''useCallback'', ''initializeApp'',
      ''getAuth'', ''signInWithCustomToken'', ''signInAnonymously'', ''onAuthStateChanged'',
      ''signOut''] @ firestore_imports @
     [''appId'', ''firebaseConfig'', ''initialAuthToken'', ''HARDCODED_CLIENT_ID'',
      ''SPECIAL_CODE'', ''MAX_MESSAGES_BEFORE_LOCK'', ''getChatCollectionPath'',
      ''getStatusDocPath'', ''formatTimestamp'', ''Modal'', ''App'']"

section \<open>Strings\<close>

text \<open>
  Text is a \<^typ>\<open>string\<close>, a list of 8-bit characters. \<^verbatim>\<open>String.prototype.trim\<close>
  strips white space at both ends (tab, line feed, vertical tab, form feed, carriage return,
  space and no-break space are the white space characters of this range);
  \<^verbatim>\<open>toUpperCase\<close> is modelled on the ASCII letters. No character outside ASCII has an
  upper-case form made of the characters of \<^verbatim>\<open>UNLOCK123\<close>, so the comparison with
  \<^verbatim>\<open>SPECIAL_CODE\<close> is decided by the ASCII letters alone.
\<close>

definition is_space :: "char \<Rightarrow> bool" where
  "is_space c = (of_char c \<in> {9, 10, 11, 12, 13, 32, 160 :: nat})"

definition trim :: "string \<Rightarrow> string" where
  "trim s = rev (dropWhile is_space (rev (dropWhile is_space s)))"

definition upper_char :: "char \<Rightarrow> char" where
  "upper_char c =
     (let n = of_char c :: nat in if 97 \<le> n \<and> n \<le> 122 then char_of (n - 32) else c)"

definition toUpperCase :: "string \<Rightarrow> string" where
  "toUpperCase s = map upper_char s"

text \<open>JavaScript truthiness of a value that is \<^verbatim>\<open>null\<close> or a string.\<close>

definition truthy :: "string option \<Rightarrow> bool" where
  "truthy v = (case v of None \<Rightarrow> False | Some s \<Rightarrow> s \<noteq> [])"

definition or_else :: "string option \<Rightarrow> string option \<Rightarrow> string option" where
  "or_else x y = (if truthy x then x else y)"

section \<open>Documents and the document store\<close>

datatype role = Master | Client

record status =
  isLoggedIn :: bool
  msgCount :: jsnum
  forceLogout :: bool
  lastLogin :: "nat option"

record message =
  msg_text :: string
  senderId :: string
  timestamp :: nat

text \<open>
  The writes a batch can hold, and the requests the component sends to the hosted services.
  A message document gets its identifier from the store when it is created.
\<close>

datatype batch_write =
    SetMessage string message
  | SetStatus string status
  | SetStatusMerge string status
  | DeleteMessage string nat
  | DeleteStatus string

datatype request =
    SetDocMerge string status
  | AddDoc string message
  | DeleteDoc string
  | Commit "batch_write list"
  | SignOut

record backend =
  statusDocs :: "string \<rightharpoonup> status"
  chats :: "string \<Rightarrow> (nat \<times> message) list"
  authUser :: "string option"
  requests :: "request list"

text \<open>
  \<^verbatim>\<open>{ merge: true }\<close>: the fields given replace those of the stored document, the
  others stay. Every object the component writes has \<^verbatim>\<open>msgCount\<close> set explicitly;
  \<^verbatim>\<open>isLoggedIn\<close> and \<^verbatim>\<open>forceLogout\<close> are kept as their truth values;
  \<^verbatim>\<open>lastLogin\<close> is present only once it came from a snapshot.
\<close>

definition merge_status :: "status \<Rightarrow> status option \<Rightarrow> status" where
  "merge_status d old =
     (case old of
        None \<Rightarrow> d
      | Some e \<Rightarrow> (case lastLogin d of None \<Rightarrow> d\<lparr>lastLogin := lastLogin e\<rparr> | Some t \<Rightarrow> d))"

definition freshId :: "(nat \<times> message) list \<Rightarrow> nat" where
  "freshId ds = Suc (fold max (map fst ds) 0)"

fun apply_write :: "batch_write \<Rightarrow> backend \<Rightarrow> backend" where
  "apply_write (SetMessage p m) b =
     b\<lparr>chats := (chats b)(p := chats b p @ [(freshId (chats b p), m)])\<rparr>"
| "apply_write (SetStatus p d) b = b\<lparr>statusDocs := (statusDocs b)(p \<mapsto> d)\<rparr>"
| "apply_write (SetStatusMerge p d) b =
     b\<lparr>statusDocs := (statusDocs b)(p \<mapsto> merge_status d (statusDocs b p))\<rparr>"
| "apply_write (DeleteMessage p i) b =
     b\<lparr>chats := (chats b)(p := filter (\<lambda>(j, m). j \<noteq> i) (chats b p))\<rparr>"
| "apply_write (DeleteStatus p) b = b\<lparr>statusDocs := (statusDocs b)(p := None)\<rparr>"

fun apply_request :: "request \<Rightarrow> backend \<Rightarrow> backend" where
  "apply_request (SetDocMerge p d) b = apply_write (SetStatusMerge p d) b"
| "apply_request (AddDoc p m) b = apply_write (SetMessage p m) b"
| "apply_request (DeleteDoc p) b = apply_write (DeleteStatus p) b"
| "apply_request (Commit ws) b = fold apply_write ws b"
| "apply_request SignOut b = b\<lparr>authUser := None\<rparr>"

text \<open>
  A request is recorded when it is sent. The service either accepts it, and then all of it
  takes effect (a batch is all or nothing), or rejects it, and then nothing does and the
  awaiting code gets an exception. Whether the \<open>n\<close>-th request is accepted is an input:
  \<open>ok n\<close>.
\<close>

definition send_request :: "(nat \<Rightarrow> bool) \<Rightarrow> request \<Rightarrow> backend \<Rightarrow> bool \<times> backend" where
  "send_request ok r b =
     (let b' = b\<lparr>requests := requests b @ [r]\<rparr>
      in if ok (length (requests b)) then (True, apply_request r b') else (False, b'))"

section \<open>The state of one browser session\<close>

text \<open>
  The component state of \<^verbatim>\<open>App\<close> (its \<^verbatim>\<open>useState\<close> and \<^verbatim>\<open>useRef\<close> cells), and the
  parts of the browser it uses: the clock read by \<^verbatim>\<open>new Date()\<close>, the pending
  timeouts (identifier and due time, in milliseconds) and the console. The text of a modal is
  display text and is left out; its title is kept. The local message buffer is only
  rendered and is left out.
\<close>

record modal_state =
  isOpen :: bool
  title :: string

record session =
  appId :: string
  db :: bool
  auth :: bool
  userId :: "string option"
  userRole :: "role option"
  newMessage :: string
  clientStatus :: status
  loading :: bool
  isTouching :: bool
  modal :: modal_state
  touchTimerRef :: "nat option"
  clock :: nat
  timers :: "(nat \<times> nat) list"
  nextTimer :: nat
  console :: "string list"

type_synonym world = "session \<times> backend"

definition initialClientStatus :: status where
  "initialClientStatus =
     \<lparr>isLoggedIn = False, msgCount = js_int 0, forceLogout = False, lastLogin = None\<rparr>"

text \<open>
  \<^verbatim>\<open>masterId\<close> is computed on every render from \<^verbatim>\<open>userRole\<close> and \<^verbatim>\<open>userId\<close>
  (line 88): it is the user's own identifier for either role.
\<close>

definition masterId :: "session \<Rightarrow> string option" where
  "masterId a =
     (case userRole a of
        Some Master \<Rightarrow> userId a
      | Some Client \<Rightarrow> userId a
      | None \<Rightarrow> None)"

definition put_console :: "string \<Rightarrow> session \<Rightarrow> session" where
  "put_console line a = a\<lparr>console := console a @ [line]\<rparr>"

section \<open>Session and role resolution\<close>

definition resolveRole :: "string \<Rightarrow> role" where
  "resolveRole uid = (if uid = HARDCODED_CLIENT_ID then Client else Master)"

definition onAuthStateChanged :: "string option \<Rightarrow> session \<Rightarrow> session" where
  "onAuthStateChanged user a =
     (case user of
        Some uid \<Rightarrow> a\<lparr>userId := Some uid, userRole := Some (resolveRole uid), loading := False\<rparr>
      | None \<Rightarrow> a\<lparr>userId := None, userRole := None, loading := False\<rparr>)"

section \<open>Deleting the client's chat data, login and logout\<close>

text \<open>
  \<^verbatim>\<open>deleteClientChatData\<close> reads the conversation with \<^verbatim>\<open>getDocs\<close> (line 226). The name
  is resolved in the module's scope; the function has no local of that name. Everything
  from that call to the end of the function is inside one \<^verbatim>\<open>try\<close> block whose
  \<^verbatim>\<open>catch\<close> logs the error.
\<close>

datatype error = ReferenceError string

definition getDocs :: "string \<Rightarrow> backend \<Rightarrow> error + (nat \<times> message) list" where
  "getDocs p b =
     (if ''getDocs'' \<in> set module_scope then Inr (chats b p)
      else Inl (ReferenceError ''getDocs''))"

definition deleteClientChatData ::
  "(nat \<Rightarrow> bool) \<Rightarrow> string option \<Rightarrow> string option \<Rightarrow> bool \<Rightarrow> world \<Rightarrow> world" where
  "deleteClientChatData ok mId cId database w =
     (case w of (a, b) \<Rightarrow>
        if \<not> database \<or> \<not> truthy mId \<or> \<not> truthy cId then (a, b)
        else
          (case (mId, cId) of
             (Some m, Some c) \<Rightarrow>
               let chatPath = getChatCollectionPath (appId a) m c
               in (case getDocs chatPath b of
                     Inl e \<Rightarrow> (put_console ''Error deleting client chat data:'' a, b)
                   | Inr docs \<Rightarrow>
                       (case (if 0 < length docs
                              then send_request ok
                                     (Commit (map (\<lambda>(i, d). DeleteMessage chatPath i) docs)) b
                              else (True, b)) of
                          (False, b1) \<Rightarrow> (put_console ''Error deleting client chat data:'' a, b1)
                        | (True, b1) \<Rightarrow>
                            (case send_request ok (DeleteDoc (getStatusDocPath (appId a) c)) b1 of
                               (False, b2) \<Rightarrow>
                                 (put_console ''Error deleting client chat data:'' a, b2)
                             | (True, b2) \<Rightarrow> (a, b2))))
           | _ \<Rightarrow> (a, b)))"

definition handleLogin :: "(nat \<Rightarrow> bool) \<Rightarrow> world \<Rightarrow> world" where
  "handleLogin ok w =
     (case w of (a, b) \<Rightarrow>
        if \<not> db a \<or> \<not> truthy (userId a) then (a, b)
        else
          (case userId a of
             None \<Rightarrow> (a, b)
           | Some uid \<Rightarrow>
               let statusDocRef = getStatusDocPath (appId a) uid;
                   (batch, w1) =
                     (if userRole a = Some Client
                      then
                        (let (a1, b1) = deleteClientChatData ok (masterId a) (userId a) (db a) (a, b)
                         in ([SetStatus statusDocRef
                                \<lparr>isLoggedIn = True, msgCount = js_int 0, forceLogout = False,
                                 lastLogin = Some (clock a)\<rparr>],
                             (put_console
                                ''Client chat data reset/deleted on successful login.'' a1, b1)))
                      else ([], (a, b)))
               in (case send_request ok (Commit batch) (snd w1) of
                     (True, b2) \<Rightarrow> (put_console ''Login status updated.'' (fst w1), b2)
                   | (False, b2) \<Rightarrow>
                       (put_console ''Error during login status update:'' (fst w1), b2))))"

text \<open>
  \<^verbatim>\<open>handleLogout\<close>. When \<^verbatim>\<open>signOut\<close> is rejected the exception leaves the handler and
  the rest of it does not run.
\<close>

definition handleLogout :: "(nat \<Rightarrow> bool) \<Rightarrow> world \<Rightarrow> world" where
  "handleLogout ok w =
     (case w of (a, b) \<Rightarrow>
        if auth a then
          (case send_request ok SignOut b of
             (False, b1) \<Rightarrow> (a, b1)
           | (True, b1) \<Rightarrow>
               let (a2, b2) =
                     (if db a \<and> userId a = Some HARDCODED_CLIENT_ID
                      then
                        (let (a1, b') =
                               deleteClientChatData ok (or_else (masterId a) (userId a))
                                 (userId a) (db a) (a, b1)
                         in (put_console
                               ''Client successfully logged out and data deleted.'' a1, b'))
                      else (a, b1))
               in (a2\<lparr>userId := None, userRole := None\<rparr>, b2))
        else (a\<lparr>userId := None, userRole := None\<rparr>, b))"

text \<open>
  The callback of the status listener. \<^verbatim>\<open>handleLogout()\<close> is started and not awaited,
  so the console line of the callback comes before those of the logout.
\<close>

definition onStatusSnapshot :: "(nat \<Rightarrow> bool) \<Rightarrow> status option \<Rightarrow> world \<Rightarrow> world" where
  "onStatusSnapshot ok docSnap w =
     (case w of (a, b) \<Rightarrow>
        (case docSnap of
           Some st \<Rightarrow>
             let a1 = a\<lparr>clientStatus := st\<rparr>
             in if userRole a = Some Client \<and> forceLogout st
                then handleLogout ok (put_console ''Master initiated forced logout.'' a1, b)
                else (a1, b)
         | None \<Rightarrow> (a\<lparr>clientStatus := initialClientStatus\<rparr>, b)))"

section \<open>Sending a message\<close>

definition systemNotice :: "nat \<Rightarrow> message" where
  "systemNotice now =
     \<lparr>msg_text = ''Master: Code received. Client message counter reset.'',
      senderId = ''SYSTEM'', timestamp = now\<rparr>"

definition handleSendMessage :: "(nat \<Rightarrow> bool) \<Rightarrow> world \<Rightarrow> world" where
  "handleSendMessage ok w =
     (case w of (a, b) \<Rightarrow>
        if \<not> db a \<or> \<not> truthy (userId a) \<or> trim (newMessage a) = [] \<or> \<not> truthy (masterId a)
        then (a, b)
        else
          (case (userId a, masterId a) of
             (Some uid, Some mid) \<Rightarrow>
               let trimmedMessage = trim (newMessage a);
                   chatCollectionRef = getChatCollectionPath (appId a) mid HARDCODED_CLIENT_ID;
                   statusDocRef = getStatusDocPath (appId a) HARDCODED_CLIENT_ID
               in if userRole a = Some Client
                     \<and> js_ge (msgCount (clientStatus a)) MAX_MESSAGES_BEFORE_LOCK
                  then (a\<lparr>modal := \<lparr>isOpen = True, title = ''Message Limit Reached''\<rparr>\<rparr>, b)
                  else if userRole a = Some Client \<and> toUpperCase trimmedMessage = SPECIAL_CODE
                  then
                    (case send_request ok
                            (SetDocMerge statusDocRef
                               ((clientStatus a)\<lparr>msgCount := js_int 0\<rparr>)) b of
                       (False, b1) \<Rightarrow> (a, b1)
                     | (True, b1) \<Rightarrow>
                         (a\<lparr>newMessage := []\<rparr>,
                          snd (send_request ok (AddDoc chatCollectionRef (systemNotice (clock a)))
                                 b1)))
                  else
                    (let batch =
                           SetMessage chatCollectionRef
                             \<lparr>msg_text = trimmedMessage, senderId = uid, timestamp = clock a\<rparr>
                           # (if userRole a = Some Client
                              then [SetStatusMerge statusDocRef
                                      ((clientStatus a)
                                         \<lparr>msgCount :=
                                            js_add (msgCount (clientStatus a)) (js_int 1)\<rparr>)]
                              else [])
                     in (case send_request ok (Commit batch) b of
                           (True, b1) \<Rightarrow> (a\<lparr>newMessage := []\<rparr>, b1)
                         | (False, b1) \<Rightarrow>
                             (a\<lparr>modal := \<lparr>isOpen = True, title = ''Error''\<rparr>\<rparr>, b1)))
           | _ \<Rightarrow> (a, b)))"

section \<open>What the view lets the user do\<close>

text \<open>
  The conditions of the rendered page (the \<^verbatim>\<open>return\<close> of \<^verbatim>\<open>App\<close>). The form whose
  \<^verbatim>\<open>onSubmit\<close> is \<^verbatim>\<open>handleSendMessage\<close> is part of the page only when the footer
  condition holds, and its input and submit button carry \<^verbatim>\<open>disabled\<close> for a client who
  cannot send.
\<close>

definition canClientSend :: "session \<Rightarrow> bool" where
  "canClientSend a =
     (isLoggedIn (clientStatus a)
      \<and> js_lt (msgCount (clientStatus a)) MAX_MESSAGES_BEFORE_LOCK)"

definition formRendered :: "session \<Rightarrow> bool" where
  "formRendered a =
     (\<not> loading a \<and> truthy (userId a) \<and>
      (userRole a \<noteq> None \<and> isLoggedIn (clientStatus a)
       \<or> userRole a = Some Master \<and> isLoggedIn (clientStatus a)))"

definition sendDisabled :: "session \<Rightarrow> bool" where
  "sendDisabled a = (userRole a = Some Client \<and> \<not> canClientSend a)"

section \<open>The press-and-hold control\<close>

text \<open>
  \<^verbatim>\<open>setTimeout\<close> registers a single-shot timeout and returns its identifier;
  \<^verbatim>\<open>clearTimeout\<close> removes a pending timeout and does nothing for \<^verbatim>\<open>null\<close> or for one
  that has run.
\<close>

definition setTimeout :: "nat \<Rightarrow> session \<Rightarrow> nat \<times> session" where
  "setTimeout delay a =
     (nextTimer a,
      a\<lparr>timers := timers a @ [(nextTimer a, clock a + delay)], nextTimer := Suc (nextTimer a)\<rparr>)"

definition clearTimeout :: "nat option \<Rightarrow> session \<Rightarrow> session" where
  "clearTimeout h a =
     (case h of
        None \<Rightarrow> a
      | Some i \<Rightarrow> a\<lparr>timers := filter (\<lambda>(j, due). j \<noteq> i) (timers a)\<rparr>)"

definition handleTouchStart :: "world \<Rightarrow> world" where
  "handleTouchStart w =
     (case w of (a, b) \<Rightarrow>
        if userRole a \<noteq> Some Client then (a, b)
        else
          (let (i, a1) = setTimeout 3000 (a\<lparr>isTouching := True\<rparr>)
           in (a1\<lparr>touchTimerRef := Some i\<rparr>, b)))"

definition handleTouchEnd :: "world \<Rightarrow> world" where
  "handleTouchEnd w =
     (case w of (a, b) \<Rightarrow>
        if userRole a \<noteq> Some Client then (a, b)
        else ((clearTimeout (touchTimerRef a) a)\<lparr>isTouching := False\<rparr>, b))"

text \<open>The callback given to \<^verbatim>\<open>setTimeout\<close> by \<^verbatim>\<open>handleTouchStart\<close>.\<close>

definition touchTimerExpired :: "(nat \<Rightarrow> bool) \<Rightarrow> world \<Rightarrow> world" where
  "touchTimerExpired ok w =
     (case w of (a, b) \<Rightarrow>
        handleLogout ok (put_console ''Touch timer expired. Initiating auto-logout.'' a, b))"

text \<open>
  The event loop, as far as timeouts go: when the clock reaches \<open>t\<close>, every timeout that is
  due and still pending runs once, in the order of registration, and is no longer pending.
  Each handler runs to its end before the next event, and reads the component state as it
  is when the handler starts.
\<close>

fun run_due :: "(nat \<Rightarrow> bool) \<Rightarrow> nat \<Rightarrow> (nat \<times> nat) list \<Rightarrow> world \<Rightarrow> world" where
  "run_due ok t [] w = w"
| "run_due ok t ((i, due) # rest) w =
     (if due \<le> t \<and> (i, due) \<in> set (timers (fst w))
      then run_due ok t rest
             (touchTimerExpired ok
                (case w of (a, b) \<Rightarrow>
                   (a\<lparr>timers := filter (\<lambda>(j, d). j \<noteq> i) (timers a),
                      clock := max (clock a) due\<rparr>, b)))
      else run_due ok t rest w)"

definition advance :: "(nat \<Rightarrow> bool) \<Rightarrow> nat \<Rightarrow> world \<Rightarrow> world" where
  "advance ok t w =
     (case run_due ok t (timers (fst w)) w of (a, b) \<Rightarrow> (a\<lparr>clock := max (clock a) t\<rparr>, b))"

section \<open>Sample sessions\<close>

definition sampleStatus :: "int \<Rightarrow> status" where
  "sampleStatus n =
     \<lparr>isLoggedIn = True, msgCount = js_int n, forceLogout = False, lastLogin = Some 5\<rparr>"

definition sampleSession :: "string \<Rightarrow> string \<Rightarrow> int \<Rightarrow> session" where
  "sampleSession uid txt n =
     \<lparr>appId = ''app'', db = True, auth = True, userId = Some uid,
      userRole = Some (resolveRole uid), newMessage = txt, clientStatus = sampleStatus n,
      loading = False, isTouching = False, modal = \<lparr>isOpen = False, title = []\<rparr>,
      touchTimerRef = None, clock = 100, timers = [], nextTimer = 0, console = []\<rparr>"

definition sampleMessage :: message where
  "sampleMessage = \<lparr>msg_text = ''hello'', senderId = ''client_user_12345'', timestamp = 7\<rparr>"

definition sampleBackend :: "string \<Rightarrow> int \<Rightarrow> backend" where
  "sampleBackend uid n =
     \<lparr>statusDocs = [getStatusDocPath ''app'' HARDCODED_CLIENT_ID \<mapsto> sampleStatus n],
      chats = (\<lambda>p. if p = getChatCollectionPath ''app'' uid HARDCODED_CLIENT_ID
                    then [(1, sampleMessage)] else []),
      authUser = Some uid, requests = []\<rparr>"

section \<open>Basic facts about the model\<close>

text \<open>Integers of magnitude below \<open>2\<^sup>5\<^sup>3\<close> are added exactly; beyond that the sum is rounded.\<close>

lemma js_ge_int [simp]: "js_ge (js_int m) (js_int n) \<longleftrightarrow> n \<le> m"
  by (simp add: js_int_def)

lemma js_lt_int [simp]: "js_lt (js_int m) (js_int n) \<longleftrightarrow> m < n"
  by (simp add: js_int_def)

lemma js_int_eq [simp]: "js_int m = js_int n \<longleftrightarrow> m = n"
  by (simp add: js_int_def)

lemma round_half_even_exact: "2 ^ s dvd k \<Longrightarrow> round_half_even k s * 2 ^ s = k"
  by (auto simp: round_half_even_def Let_def)

lemma round_double_int:
  assumes "\<bar>v\<bar> < 2 ^ 53"
  shows "round_double (v * 2 ^ 1074) = Num (v * 2 ^ 1074)"
proof (cases "v = 0")
  case True
  then show ?thesis
    by (simp add: round_double_def round_half_even_def)
next
  case False
  then have pos: "0 < \<bar>v\<bar>" by simp
  have bl: "bitlen \<bar>v * 2 ^ 1074\<bar> = bitlen \<bar>v\<bar> + 1074"
    using bitlen_pow2 [OF pos, of 1074] by (simp add: abs_mult)
  have "2 ^ nat (bitlen \<bar>v\<bar> - 1) \<le> \<bar>v\<bar>"
    using bitlen_bounds [OF pos] by simp
  with assms have "(2::int) ^ nat (bitlen \<bar>v\<bar> - 1) < 2 ^ 53" by linarith
  then have "nat (bitlen \<bar>v\<bar> - 1) < 53"
    by (rule power_less_imp_less_exp [rotated]) simp
  then have le: "nat (bitlen \<bar>v * 2 ^ 1074\<bar> - 53) \<le> 1074"
    unfolding bl by linarith
  then have "(2::int) ^ nat (bitlen \<bar>v * 2 ^ 1074\<bar> - 53) dvd 2 ^ 1074"
    by (rule le_imp_power_dvd)
  then have dv: "(2::int) ^ nat (bitlen \<bar>v * 2 ^ 1074\<bar> - 53) dvd v * 2 ^ 1074"
    by (rule dvd_mult)
  have "\<bar>v * 2 ^ 1074\<bar> < (2 ^ 53 * 2 ^ 1074 :: int)"
    using assms by (simp add: abs_mult)
  also have "\<dots> \<le> 2 ^ 2098"
    unfolding power_add [symmetric] by (rule power_increasing) simp_all
  finally have small: "\<not> 2 ^ 2098 \<le> \<bar>v * 2 ^ 1074\<bar>" by simp
  show ?thesis
    unfolding round_double_def Let_def round_half_even_exact [OF dv]
    using small by (simp only: if_False)
qed

lemma js_add_int:
  "\<bar>m + n\<bar> < 2 ^ 53 \<Longrightarrow> js_add (js_int m) (js_int n) = js_int (m + n)"
  using round_double_int [of "m + n"]
  by (simp add: js_int_def ring_distribs)

lemma js_add_rounds:
  "js_add (js_int (- 9007199254740994)) (js_int 1) = js_int (- 9007199254740992)"
  by code_simp

lemma getDocs_unbound: "getDocs p b = Inl (ReferenceError ''getDocs'')"
  by (simp add: getDocs_def module_scope_def firestore_imports_def)

lemma deleteClientChatData_eq:
  "deleteClientChatData ok m c d (a, b) =
     (if d \<and> truthy m \<and> truthy c
      then put_console ''Error deleting client chat data:'' a else a, b)"
  by (simp add: deleteClientChatData_def getDocs_unbound truthy_def split: option.splits)

lemma masterId_role: "userRole a = Some r \<Longrightarrow> masterId a = userId a"
  by (cases r) (simp_all add: masterId_def)

lemma sample_client_role: "userRole (sampleSession HARDCODED_CLIENT_ID txt n) = Some Client"
  by (simp add: sampleSession_def resolveRole_def)

lemma sample_master_role: "userRole (sampleSession ''master_1'' txt n) = Some Master"
  by (simp add: sampleSession_def resolveRole_def HARDCODED_CLIENT_ID_def)

lemma commit_message_only:
  "send_request ok (Commit [SetMessage p m]) b =
     (if ok (length (requests b))
      then (True, b\<lparr>requests := requests b @ [Commit [SetMessage p m]],
                     chats := (chats b)(p := chats b p @ [(freshId (chats b p), m)])\<rparr>)
      else (False, b\<lparr>requests := requests b @ [Commit [SetMessage p m]]\<rparr>))"
  by (simp add: send_request_def)

lemma commit_message_and_status:
  "send_request ok (Commit [SetMessage p m, SetStatusMerge sp d]) b =
     (if ok (length (requests b))
      then (True, b\<lparr>requests := requests b @ [Commit [SetMessage p m, SetStatusMerge sp d]],
                     chats := (chats b)(p := chats b p @ [(freshId (chats b p), m)]),
                     statusDocs := (statusDocs b)(sp \<mapsto> merge_status d (statusDocs b sp))\<rparr>)
      else (False, b\<lparr>requests := requests b @ [Commit [SetMessage p m, SetStatusMerge sp d]]\<rparr>))"
  by (simp add: send_request_def)

lemma msgCount_merge_status: "msgCount (merge_status d old) = msgCount d"
  by (simp add: merge_status_def split: option.splits)

text \<open>The send handler once the limit is reached, whatever the text.\<close>

lemma handleSendMessage_at_limit:
  assumes "userRole a = Some Client"
    and "js_ge (msgCount (clientStatus a)) MAX_MESSAGES_BEFORE_LOCK"
  shows "handleSendMessage ok (a, b) =
           (if db a \<and> truthy (userId a) \<and> trim (newMessage a) \<noteq> []
            then a\<lparr>modal := \<lparr>isOpen = True, title = ''Message Limit Reached''\<rparr>\<rparr> else a, b)"
  using assms
  by (simp add: handleSendMessage_def masterId_role truthy_def split: option.splits)

text \<open>The send handler on the path that builds the batch (line 290 onwards).\<close>

lemma normal_send_eq:
  assumes "db a" and "userId a = Some uid" and "uid \<noteq> []" and "userRole a = Some r"
    and "trim (newMessage a) \<noteq> []"
    and "r = Client \<longrightarrow> \<not> js_ge (msgCount (clientStatus a)) MAX_MESSAGES_BEFORE_LOCK
           \<and> toUpperCase (trim (newMessage a)) \<noteq> SPECIAL_CODE"
  shows "handleSendMessage ok (a, b) =
     (case send_request ok
             (Commit (SetMessage (getChatCollectionPath (appId a) uid HARDCODED_CLIENT_ID)
                        \<lparr>msg_text = trim (newMessage a), senderId = uid, timestamp = clock a\<rparr>
                      # (if r = Client
                         then [SetStatusMerge (getStatusDocPath (appId a) HARDCODED_CLIENT_ID)
                                 ((clientStatus a)
                                    \<lparr>msgCount := js_add (msgCount (clientStatus a)) (js_int 1)\<rparr>)]
                         else []))) b of
        (True, b1) \<Rightarrow> (a\<lparr>newMessage := []\<rparr>, b1)
      | (False, b1) \<Rightarrow> (a\<lparr>modal := \<lparr>isOpen = True, title = ''Error''\<rparr>\<rparr>, b1))"
  using assms masterId_role[of a r]
  by (cases r) (simp_all add: handleSendMessage_def truthy_def)

text \<open>
  The special code sent by a client below the limit: the counter document is merged with
  \<^verbatim>\<open>msgCount: 0\<close> and one system notice is added, when the store accepts both requests.
\<close>

lemma special_code_below_limit:
  assumes "userRole a = Some Client" and "db a" and "userId a = Some uid" and "uid \<noteq> []"
    and "toUpperCase (trim (newMessage a)) = SPECIAL_CODE"
    and "\<not> js_ge (msgCount (clientStatus a)) MAX_MESSAGES_BEFORE_LOCK"
    and "ok (length (requests b))" and "ok (Suc (length (requests b)))"
  shows "let p = getChatCollectionPath (appId a) uid HARDCODED_CLIENT_ID;
             sp = getStatusDocPath (appId a) HARDCODED_CLIENT_ID;
             b' = snd (handleSendMessage ok (a, b))
         in requests b' = requests b @ [SetDocMerge sp ((clientStatus a)\<lparr>msgCount := js_int 0\<rparr>),
                                        AddDoc p (systemNotice (clock a))]
            \<and> map_option msgCount (statusDocs b' sp) = Some (js_int 0)
            \<and> chats b' =
                (chats b)(p := chats b p @ [(freshId (chats b p), systemNotice (clock a))])"
proof -
  have "trim (newMessage a) \<noteq> []"
    using assms(5) by (auto simp: toUpperCase_def SPECIAL_CODE_def)
  then show ?thesis
    using assms masterId_role[of a Client]
    by (simp add: handleSendMessage_def truthy_def send_request_def Let_def
          msgCount_merge_status)
qed

section \<open>Role resolution\<close>

text \<open>
  Claim C5. For every authenticated identity string, the role set by the auth-state
  callback is the client role exactly when the identity equals \<^verbatim>\<open>HARDCODED_CLIENT_ID\<close>,
  and the master role otherwise.
\<close>

theorem role_resolution:
  "(userRole (onAuthStateChanged (Some uid) a) = Some Client \<longleftrightarrow> uid = HARDCODED_CLIENT_ID) \<and>
   (userRole (onAuthStateChanged (Some uid) a) = Some Master \<longleftrightarrow> uid \<noteq> HARDCODED_CLIENT_ID) \<and>
   userId (onAuthStateChanged (Some uid) a) = Some uid"
  by (simp add: onAuthStateChanged_def resolveRole_def)

theorem role_resolution_witness:
  "userRole (onAuthStateChanged (Some ''client_user_12345'') (sampleSession [] [] 0)) = Some Client \<and>
   userRole (onAuthStateChanged (Some ''master_1'') (sampleSession [] [] 0)) = Some Master"
  using role_resolution [of "''client_user_12345''" "sampleSession [] [] 0"]
    role_resolution [of "''master_1''" "sampleSession [] [] 0"]
  by (simp add: HARDCODED_CLIENT_ID_def)

section \<open>Sending\<close>

text \<open>
  Claim C9. When the input text is empty or only white space, \<^verbatim>\<open>handleSendMessage\<close>
  returns at once: no request is sent and the session and the store are as before, whatever
  the role.
\<close>

theorem blank_send_no_effect:
  "trim (newMessage a) = [] \<Longrightarrow> handleSendMessage ok (a, b) = (a, b)"
  by (simp add: handleSendMessage_def)

theorem blank_send_no_effect_witness:
  "trim (newMessage (sampleSession HARDCODED_CLIENT_ID ''  '' 1)) = [] \<and>
   handleSendMessage (\<lambda>n. True)
     (sampleSession HARDCODED_CLIENT_ID ''  '' 1, sampleBackend HARDCODED_CLIENT_ID 1)
   = (sampleSession HARDCODED_CLIENT_ID ''  '' 1, sampleBackend HARDCODED_CLIENT_ID 1) \<and>
   trim (newMessage (sampleSession ''master_1'' [] 1)) = [] \<and>
   handleSendMessage (\<lambda>n. True) (sampleSession ''master_1'' [] 1, sampleBackend ''master_1'' 1)
   = (sampleSession ''master_1'' [] 1, sampleBackend ''master_1'' 1)"
proof -
  have c: "trim (newMessage (sampleSession HARDCODED_CLIENT_ID ''  '' 1)) = []"
    by (simp add: sampleSession_def trim_def is_space_def)
  have m: "trim (newMessage (sampleSession ''master_1'' [] 1)) = []"
    by (simp add: sampleSession_def trim_def)
  show ?thesis
    using c m blank_send_no_effect [OF c] blank_send_no_effect [OF m] by simp
qed

text \<open>
  Claim C4. For a client whose counter equals \<^verbatim>\<open>MAX_MESSAGES_BEFORE_LOCK\<close>, a send
  changes nothing in the store and sends no request; the only effect is the modal
  ``Message Limit Reached''. This holds for every text, so in particular for every text
  that is not the special code.
\<close>

theorem limit_rejects_send:
  assumes "userRole a = Some Client"
    and "msgCount (clientStatus a) = MAX_MESSAGES_BEFORE_LOCK"
  shows "handleSendMessage ok (a, b) =
           (if db a \<and> truthy (userId a) \<and> trim (newMessage a) \<noteq> []
            then a\<lparr>modal := \<lparr>isOpen = True, title = ''Message Limit Reached''\<rparr>\<rparr> else a, b)"
  using assms handleSendMessage_at_limit [of a ok b]
  by (simp add: MAX_MESSAGES_BEFORE_LOCK_def)

theorem limit_rejects_send_witness:
  "userRole (sampleSession HARDCODED_CLIENT_ID ''hello'' 3) = Some Client \<and>
   msgCount (clientStatus (sampleSession HARDCODED_CLIENT_ID ''hello'' 3))
     = MAX_MESSAGES_BEFORE_LOCK \<and>
   toUpperCase (trim ''hello'') \<noteq> SPECIAL_CODE \<and>
   handleSendMessage (\<lambda>n. True)
     (sampleSession HARDCODED_CLIENT_ID ''hello'' 3, sampleBackend HARDCODED_CLIENT_ID 3)
   = ((sampleSession HARDCODED_CLIENT_ID ''hello'' 3)
        \<lparr>modal := \<lparr>isOpen = True, title = ''Message Limit Reached''\<rparr>\<rparr>,
      sampleBackend HARDCODED_CLIENT_ID 3)"
proof -
  let ?a = "sampleSession HARDCODED_CLIENT_ID ''hello'' 3"
  have n: "msgCount (clientStatus ?a) = MAX_MESSAGES_BEFORE_LOCK"
    by (simp add: sampleSession_def sampleStatus_def MAX_MESSAGES_BEFORE_LOCK_def)
  have t: "trim ''hello'' = ''hello''"
    by (simp add: trim_def is_space_def)
  have u: "toUpperCase ''hello'' \<noteq> SPECIAL_CODE"
    by (simp add: toUpperCase_def SPECIAL_CODE_def)
  have g: "db ?a \<and> truthy (userId ?a) \<and> trim (newMessage ?a) \<noteq> []"
    by (simp add: sampleSession_def truthy_def t HARDCODED_CLIENT_ID_def)
  show ?thesis
    using limit_rejects_send [OF sample_client_role n, of "\<lambda>n. True"
        "sampleBackend HARDCODED_CLIENT_ID 3"] g n t u sample_client_role [of "''hello''" 3]
    by simp
qed

text \<open>
  Claim C10. An accepted send by the master sends one request, a batch holding one new
  message document and nothing else. The status documents and the session's copy of the
  client status are unchanged; the message is in the conversation when the store accepts
  the batch, and the conversation is as before when it rejects it.
\<close>

theorem master_send_leaves_status:
  assumes "userRole a = Some Master" and "db a" and "userId a = Some uid" and "uid \<noteq> []"
    and "trim (newMessage a) \<noteq> []"
  shows "let p = getChatCollectionPath (appId a) uid HARDCODED_CLIENT_ID;
             m = \<lparr>msg_text = trim (newMessage a), senderId = uid, timestamp = clock a\<rparr>;
             a' = fst (handleSendMessage ok (a, b));
             b' = snd (handleSendMessage ok (a, b))
         in requests b' = requests b @ [Commit [SetMessage p m]]
            \<and> statusDocs b' = statusDocs b
            \<and> clientStatus a' = clientStatus a
            \<and> chats b' =
                (if ok (length (requests b))
                 then (chats b)(p := chats b p @ [(freshId (chats b p), m)])
                 else chats b)"
  using assms
  by (simp add: normal_send_eq [where r = Master] commit_message_only Let_def)

theorem master_send_leaves_status_witness:
  "let a = sampleSession ''master_1'' ''hi'' 1;
       b = sampleBackend ''master_1'' 1;
       p = getChatCollectionPath ''app'' ''master_1'' HARDCODED_CLIENT_ID;
       b' = snd (handleSendMessage (\<lambda>n. True) (a, b))
   in userRole a = Some Master \<and> db a \<and> userId a = Some ''master_1''
      \<and> trim (newMessage a) = ''hi''
      \<and> requests b' =
          [Commit [SetMessage p \<lparr>msg_text = ''hi'', senderId = ''master_1'', timestamp = 100\<rparr>]]
      \<and> statusDocs b' = statusDocs b
      \<and> chats b' p =
          [(1, sampleMessage),
           (2, \<lparr>msg_text = ''hi'', senderId = ''master_1'', timestamp = 100\<rparr>)]"
proof -
  let ?a = "sampleSession ''master_1'' ''hi'' 1"
  let ?b = "sampleBackend ''master_1'' 1"
  have t: "trim (newMessage ?a) = ''hi''"
    by (simp add: sampleSession_def trim_def is_space_def)
  have h: "db ?a" "userId ?a = Some ''master_1''" "''master_1'' \<noteq> []"
    "trim (newMessage ?a) \<noteq> []" "appId ?a = ''app''" "clock ?a = 100"
    by (simp_all add: t) (simp_all add: sampleSession_def)
  show ?thesis
    using master_send_leaves_status [OF sample_master_role h(1) h(2) h(3) h(4),
        of "\<lambda>n. True" ?b] h t sample_master_role [of "''hi''" 1]
    by (simp add: Let_def sampleBackend_def freshId_def)
qed

text \<open>
  Claim C3, in the form the code supports. An accepted normal send by a client (the limit
  test \<^verbatim>\<open>msgCount >= 3\<close> is false, the text is not the special code) sends one request: a
  single batch that holds the new message document and the status document whose
  \<^verbatim>\<open>msgCount\<close> is the session's live copy plus 1 in JavaScript arithmetic. When the store
  accepts the batch, the conversation has exactly one more document and the stored counter
  is that sum; the sum is the copy's counter plus exactly 1 when the copy is an integer of
  magnitude below \<open>2\<^sup>5\<^sup>3\<close>, and it is the stored counter plus exactly 1 when in addition the
  copy agrees with the stored document. When the store rejects the batch, neither the
  conversation nor the status documents change.
\<close>

theorem client_send_increments_atomically:
  assumes "userRole a = Some Client" and "db a" and "userId a = Some uid" and "uid \<noteq> []"
    and "trim (newMessage a) \<noteq> []"
    and "\<not> js_ge (msgCount (clientStatus a)) MAX_MESSAGES_BEFORE_LOCK"
    and "toUpperCase (trim (newMessage a)) \<noteq> SPECIAL_CODE"
  shows "let p = getChatCollectionPath (appId a) uid HARDCODED_CLIENT_ID;
             sp = getStatusDocPath (appId a) HARDCODED_CLIENT_ID;
             m = \<lparr>msg_text = trim (newMessage a), senderId = uid, timestamp = clock a\<rparr>;
             c = js_add (msgCount (clientStatus a)) (js_int 1);
             d = (clientStatus a)\<lparr>msgCount := c\<rparr>;
             b' = snd (handleSendMessage ok (a, b))
         in requests b' = requests b @ [Commit [SetMessage p m, SetStatusMerge sp d]]
            \<and> (if ok (length (requests b))
                then chats b' = (chats b)(p := chats b p @ [(freshId (chats b p), m)])
                     \<and> statusDocs b' = (statusDocs b)(sp \<mapsto> merge_status d (statusDocs b sp))
                     \<and> map_option msgCount (statusDocs b' sp) = Some c
                     \<and> (\<forall>n. msgCount (clientStatus a) = js_int n \<and> \<bar>n + 1\<bar> < 2 ^ 53
                            \<longrightarrow> map_option msgCount (statusDocs b' sp) = Some (js_int (n + 1)))
                     \<and> (\<forall>n. map_option msgCount (statusDocs b sp) = Some (js_int n)
                              \<and> msgCount (clientStatus a) = js_int n \<and> \<bar>n + 1\<bar> < 2 ^ 53
                            \<longrightarrow> map_option msgCount (statusDocs b' sp) = Some (js_int (n + 1)))
                else chats b' = chats b \<and> statusDocs b' = statusDocs b)"
  using assms
  by (simp add: normal_send_eq [where r = Client] commit_message_and_status Let_def
        msgCount_merge_status js_add_int)

theorem client_send_increments_atomically_witness:
  "let a = sampleSession HARDCODED_CLIENT_ID ''yo'' 2;
       b = sampleBackend HARDCODED_CLIENT_ID 2;
       p = getChatCollectionPath ''app'' HARDCODED_CLIENT_ID HARDCODED_CLIENT_ID;
       sp = getStatusDocPath ''app'' HARDCODED_CLIENT_ID;
       b' = snd (handleSendMessage (\<lambda>n. True) (a, b));
       b'' = snd (handleSendMessage (\<lambda>n. False) (a, b))
   in userRole a = Some Client \<and> db a \<and> userId a = Some HARDCODED_CLIENT_ID
      \<and> trim (newMessage a) = ''yo''
      \<and> \<not> js_ge (msgCount (clientStatus a)) MAX_MESSAGES_BEFORE_LOCK
      \<and> toUpperCase (trim (newMessage a)) \<noteq> SPECIAL_CODE
      \<and> map_option msgCount (statusDocs b sp) = Some (js_int 2)
      \<and> map_option msgCount (statusDocs b' sp) = Some (js_int 3)
      \<and> chats b' p =
          [(1, sampleMessage),
           (2, \<lparr>msg_text = ''yo'', senderId = HARDCODED_CLIENT_ID, timestamp = 100\<rparr>)]
      \<and> chats b'' = chats b \<and> statusDocs b'' = statusDocs b"
proof -
  let ?a = "sampleSession HARDCODED_CLIENT_ID ''yo'' 2"
  let ?b = "sampleBackend HARDCODED_CLIENT_ID 2"
  let ?sp = "getStatusDocPath ''app'' HARDCODED_CLIENT_ID"
  have t: "trim (newMessage ?a) = ''yo''"
    by (simp add: sampleSession_def trim_def is_space_def)
  have u: "toUpperCase (trim (newMessage ?a)) \<noteq> SPECIAL_CODE"
    by (simp add: t toUpperCase_def SPECIAL_CODE_def)
  have n: "\<not> js_ge (msgCount (clientStatus ?a)) MAX_MESSAGES_BEFORE_LOCK"
    by (simp add: sampleSession_def sampleStatus_def MAX_MESSAGES_BEFORE_LOCK_def)
  have h: "db ?a" "userId ?a = Some HARDCODED_CLIENT_ID" "HARDCODED_CLIENT_ID \<noteq> []"
    "trim (newMessage ?a) \<noteq> []" "appId ?a = ''app''" "clock ?a = 100"
    "msgCount (clientStatus ?a) = js_int 2"
    by (simp_all add: t) (simp_all add: sampleSession_def sampleStatus_def HARDCODED_CLIENT_ID_def)
  have s: "map_option msgCount (statusDocs ?b ?sp) = Some (js_int 2)"
    by (simp add: sampleBackend_def sampleStatus_def)
  note yes = client_send_increments_atomically [OF sample_client_role h(1) h(2) h(3) h(4) n u,
      of "\<lambda>n. True" ?b, unfolded Let_def h(5) h(6) t]
  note no = client_send_increments_atomically [OF sample_client_role h(1) h(2) h(3) h(4) n u,
      of "\<lambda>n. False" ?b, unfolded Let_def h(5) h(6) t]
  have c: "map_option msgCount (statusDocs (snd (handleSendMessage (\<lambda>n. True) (?a, ?b))) ?sp)
             = Some (js_int 3)"
    using yes h(7) by (simp add: msgCount_merge_status js_add_int)
  have ch: "chats (snd (handleSendMessage (\<lambda>n. True) (?a, ?b)))
              (getChatCollectionPath ''app'' HARDCODED_CLIENT_ID HARDCODED_CLIENT_ID)
            = [(1, sampleMessage),
               (2, \<lparr>msg_text = ''yo'', senderId = HARDCODED_CLIENT_ID, timestamp = 100\<rparr>)]"
    using yes by (simp add: sampleBackend_def freshId_def)
  have r: "chats (snd (handleSendMessage (\<lambda>n. False) (?a, ?b))) = chats ?b"
    "statusDocs (snd (handleSendMessage (\<lambda>n. False) (?a, ?b))) = statusDocs ?b"
    using no by simp_all
  show ?thesis
    unfolding Let_def
    using sample_client_role [of "''yo''" 2] h(1) h(2) t n u s c ch r by blast
qed

text \<open>
  Claim C3 as it is written fails when the session's copy of the status document is not
  the stored one: the copy says 2, the store says 0, and an accepted send stores 3.
\<close>

theorem client_send_stale_copy_counterexample:
  "let a = sampleSession HARDCODED_CLIENT_ID ''yo'' 2;
       b = sampleBackend HARDCODED_CLIENT_ID 0;
       sp = getStatusDocPath ''app'' HARDCODED_CLIENT_ID;
       b' = snd (handleSendMessage (\<lambda>n. True) (a, b))
   in userRole a = Some Client
      \<and> toUpperCase (trim (newMessage a)) \<noteq> SPECIAL_CODE
      \<and> map_option msgCount (statusDocs b sp) = Some (js_int 0)
      \<and> map_option msgCount (statusDocs b' sp) = Some (js_int 3)
      \<and> js_int 3 \<noteq> js_add (js_int 0) (js_int 1)"
proof -
  let ?a = "sampleSession HARDCODED_CLIENT_ID ''yo'' 2"
  let ?b = "sampleBackend HARDCODED_CLIENT_ID 0"
  let ?sp = "getStatusDocPath ''app'' HARDCODED_CLIENT_ID"
  have t: "trim (newMessage ?a) = ''yo''"
    by (simp add: sampleSession_def trim_def is_space_def)
  have u: "toUpperCase (trim (newMessage ?a)) \<noteq> SPECIAL_CODE"
    by (simp add: t toUpperCase_def SPECIAL_CODE_def)
  have n: "\<not> js_ge (msgCount (clientStatus ?a)) MAX_MESSAGES_BEFORE_LOCK"
    by (simp add: sampleSession_def sampleStatus_def MAX_MESSAGES_BEFORE_LOCK_def)
  have h: "db ?a" "userId ?a = Some HARDCODED_CLIENT_ID" "HARDCODED_CLIENT_ID \<noteq> []"
    "trim (newMessage ?a) \<noteq> []" "appId ?a = ''app''"
    "msgCount (clientStatus ?a) = js_int 2"
    by (simp_all add: t) (simp_all add: sampleSession_def sampleStatus_def HARDCODED_CLIENT_ID_def)
  have s: "map_option msgCount (statusDocs ?b ?sp) = Some (js_int 0)"
    by (simp add: sampleBackend_def sampleStatus_def)
  have e: "handleSendMessage (\<lambda>n. True) (?a, ?b) =
             (case send_request (\<lambda>n. True)
                     (Commit [SetMessage
                                (getChatCollectionPath ''app'' HARDCODED_CLIENT_ID
                                   HARDCODED_CLIENT_ID)
                                \<lparr>msg_text = ''yo'', senderId = HARDCODED_CLIENT_ID,
                                 timestamp = clock ?a\<rparr>,
                              SetStatusMerge ?sp
                                ((clientStatus ?a)
                                   \<lparr>msgCount := js_add (js_int 2) (js_int 1)\<rparr>)]) ?b of
                (True, b1) \<Rightarrow> (?a\<lparr>newMessage := []\<rparr>, b1)
              | (False, b1) \<Rightarrow> (?a\<lparr>modal := \<lparr>isOpen = True, title = ''Error''\<rparr>\<rparr>, b1))"
    using normal_send_eq [OF h(1) h(2) h(3) sample_client_role h(4), of "\<lambda>n. True" ?b] n u
    by (simp add: h(5) h(6) t)
  have c: "map_option msgCount (statusDocs (snd (handleSendMessage (\<lambda>n. True) (?a, ?b))) ?sp)
             = Some (js_int 3)"
    unfolding e by (simp add: commit_message_and_status msgCount_merge_status js_add_int)
  have d: "js_int 3 \<noteq> js_add (js_int 0) (js_int 1)"
    by (simp add: js_add_int)
  show ?thesis
    unfolding Let_def
    using sample_client_role [of "''yo''" 2] u s c d by blast
qed

text \<open>
  Claim C1. The limit check of \<^verbatim>\<open>handleSendMessage\<close> comes before the check for the
  special code and returns. A client whose counter is 3 sends \<^verbatim>\<open>unlock123\<close>: no request
  is sent, the stored counter stays 3, no system notice is added, and the limit modal opens.
\<close>

theorem special_code_at_limit_rejected:
  "let w = handleSendMessage (\<lambda>n. True)
             (sampleSession HARDCODED_CLIENT_ID ''unlock123'' 3,
              sampleBackend HARDCODED_CLIENT_ID 3)
   in toUpperCase (trim ''unlock123'') = SPECIAL_CODE
      \<and> requests (snd w) = []
      \<and> map_option msgCount (statusDocs (snd w) (getStatusDocPath ''app'' HARDCODED_CLIENT_ID))
          = Some (js_int 3)
      \<and> chats (snd w) (getChatCollectionPath ''app'' HARDCODED_CLIENT_ID HARDCODED_CLIENT_ID)
          = [(1, sampleMessage)]
      \<and> modal (fst w) = \<lparr>isOpen = True, title = ''Message Limit Reached''\<rparr>"
proof -
  let ?a = "sampleSession HARDCODED_CLIENT_ID ''unlock123'' 3"
  let ?b = "sampleBackend HARDCODED_CLIENT_ID 3"
  have lim: "js_ge (msgCount (clientStatus ?a)) MAX_MESSAGES_BEFORE_LOCK"
    by (simp add: sampleSession_def sampleStatus_def MAX_MESSAGES_BEFORE_LOCK_def)
  have t: "trim ''unlock123'' = ''unlock123''"
    by (simp add: trim_def is_space_def)
  have u: "toUpperCase ''unlock123'' = SPECIAL_CODE"
    by code_simp
  have g: "db ?a \<and> truthy (userId ?a) \<and> trim (newMessage ?a) \<noteq> []"
    by (simp add: sampleSession_def truthy_def t HARDCODED_CLIENT_ID_def)
  have "handleSendMessage (\<lambda>n. True) (?a, ?b)
          = (?a\<lparr>modal := \<lparr>isOpen = True, title = ''Message Limit Reached''\<rparr>\<rparr>, ?b)"
    using handleSendMessage_at_limit [OF sample_client_role lim] g by simp
  then show ?thesis
    by (simp add: Let_def sampleBackend_def sampleStatus_def t u)
qed

theorem special_code_at_limit_rejected_witness:
  "requests (snd (handleSendMessage (\<lambda>n. True)
                    (sampleSession HARDCODED_CLIENT_ID ''unlock123'' 3,
                     sampleBackend HARDCODED_CLIENT_ID 3))) = []
   \<and> msgCount (clientStatus (sampleSession HARDCODED_CLIENT_ID ''unlock123'' 3)) = js_int 3"
  using special_code_at_limit_rejected
  by (simp add: Let_def sampleSession_def sampleStatus_def)

text \<open>
  Claim C7, in the form the code supports. For a client on the rendered page, the send form
  is present and enabled exactly when \<^verbatim>\<open>isLoggedIn\<close> holds and \<^verbatim>\<open>msgCount < 3\<close>.
  \<^verbatim>\<open>handleSendMessage\<close> itself tests the counter only: when \<^verbatim>\<open>msgCount >= 3\<close> holds it
  opens the limit modal and writes nothing; when that test is false, a non-blank text is
  written whatever \<^verbatim>\<open>isLoggedIn\<close> is: the special code as a merge of the status document
  followed by one system notice, any other text as one batch with the message document and
  the status document.
\<close>

theorem client_send_permission:
  assumes "userRole a = Some Client"
  shows "(\<not> loading a \<and> truthy (userId a) \<longrightarrow>
            (formRendered a \<and> \<not> sendDisabled a \<longleftrightarrow>
               isLoggedIn (clientStatus a)
               \<and> js_lt (msgCount (clientStatus a)) MAX_MESSAGES_BEFORE_LOCK))
     \<and> (js_ge (msgCount (clientStatus a)) MAX_MESSAGES_BEFORE_LOCK \<longrightarrow>
            handleSendMessage ok (a, b) =
              (if db a \<and> truthy (userId a) \<and> trim (newMessage a) \<noteq> []
               then a\<lparr>modal := \<lparr>isOpen = True, title = ''Message Limit Reached''\<rparr>\<rparr> else a, b))
     \<and> (\<not> js_ge (msgCount (clientStatus a)) MAX_MESSAGES_BEFORE_LOCK
          \<and> db a \<and> userId a = Some uid \<and> uid \<noteq> [] \<and> trim (newMessage a) \<noteq> [] \<longrightarrow>
            (let p = getChatCollectionPath (appId a) uid HARDCODED_CLIENT_ID;
                 sp = getStatusDocPath (appId a) HARDCODED_CLIENT_ID;
                 m = \<lparr>msg_text = trim (newMessage a), senderId = uid, timestamp = clock a\<rparr>;
                 d = (clientStatus a)
                       \<lparr>msgCount := js_add (msgCount (clientStatus a)) (js_int 1)\<rparr>;
                 z = (clientStatus a)\<lparr>msgCount := js_int 0\<rparr>;
                 n = length (requests b);
                 b' = snd (handleSendMessage ok (a, b))
             in if toUpperCase (trim (newMessage a)) = SPECIAL_CODE
                then requests b' =
                       requests b @ SetDocMerge sp z
                         # (if ok n then [AddDoc p (systemNotice (clock a))] else [])
                     \<and> chats b' =
                         (if ok n \<and> ok (Suc n)
                          then (chats b)
                                 (p := chats b p @ [(freshId (chats b p), systemNotice (clock a))])
                          else chats b)
                else requests b' = requests b @ [Commit [SetMessage p m, SetStatusMerge sp d]]
                     \<and> chats b' =
                         (if ok n then (chats b)(p := chats b p @ [(freshId (chats b p), m)])
                          else chats b)))"
proof (intro conjI impI)
  assume "\<not> loading a \<and> truthy (userId a)"
  then show "formRendered a \<and> \<not> sendDisabled a \<longleftrightarrow>
               isLoggedIn (clientStatus a)
               \<and> js_lt (msgCount (clientStatus a)) MAX_MESSAGES_BEFORE_LOCK"
    using assms by (auto simp: formRendered_def sendDisabled_def canClientSend_def)
next
  assume "js_ge (msgCount (clientStatus a)) MAX_MESSAGES_BEFORE_LOCK"
  then show "handleSendMessage ok (a, b) =
              (if db a \<and> truthy (userId a) \<and> trim (newMessage a) \<noteq> []
               then a\<lparr>modal := \<lparr>isOpen = True, title = ''Message Limit Reached''\<rparr>\<rparr> else a, b)"
    by (rule handleSendMessage_at_limit [OF assms])
next
  assume h: "\<not> js_ge (msgCount (clientStatus a)) MAX_MESSAGES_BEFORE_LOCK
          \<and> db a \<and> userId a = Some uid \<and> uid \<noteq> [] \<and> trim (newMessage a) \<noteq> []"
  show "let p = getChatCollectionPath (appId a) uid HARDCODED_CLIENT_ID;
            sp = getStatusDocPath (appId a) HARDCODED_CLIENT_ID;
            m = \<lparr>msg_text = trim (newMessage a), senderId = uid, timestamp = clock a\<rparr>;
            d = (clientStatus a)\<lparr>msgCount := js_add (msgCount (clientStatus a)) (js_int 1)\<rparr>;
            z = (clientStatus a)\<lparr>msgCount := js_int 0\<rparr>;
            n = length (requests b);
            b' = snd (handleSendMessage ok (a, b))
        in if toUpperCase (trim (newMessage a)) = SPECIAL_CODE
           then requests b' =
                  requests b @ SetDocMerge sp z
                    # (if ok n then [AddDoc p (systemNotice (clock a))] else [])
                \<and> chats b' =
                    (if ok n \<and> ok (Suc n)
                     then (chats b)
                            (p := chats b p @ [(freshId (chats b p), systemNotice (clock a))])
                     else chats b)
           else requests b' = requests b @ [Commit [SetMessage p m, SetStatusMerge sp d]]
                \<and> chats b' =
                    (if ok n then (chats b)(p := chats b p @ [(freshId (chats b p), m)])
                     else chats b)"
  proof (cases "toUpperCase (trim (newMessage a)) = SPECIAL_CODE")
    case True
    then show ?thesis
      using h assms masterId_role [OF assms]
      by (simp add: handleSendMessage_def truthy_def send_request_def Let_def)
  next
    case False
    then show ?thesis
      using h assms
      by (simp add: normal_send_eq [where r = Client] commit_message_and_status Let_def)
  qed
qed

theorem client_send_permission_witness:
  "let lim = sampleSession HARDCODED_CLIENT_ID ''yo'' 3;
       off = (sampleSession HARDCODED_CLIENT_ID ''yo'' 0)\<lparr>clientStatus := initialClientStatus\<rparr>;
       b = sampleBackend HARDCODED_CLIENT_ID 3;
       p = getChatCollectionPath ''app'' HARDCODED_CLIENT_ID HARDCODED_CLIENT_ID
   in userRole lim = Some Client
      \<and> js_ge (msgCount (clientStatus lim)) MAX_MESSAGES_BEFORE_LOCK
      \<and> snd (handleSendMessage (\<lambda>n. True) (lim, b)) = b
      \<and> userRole off = Some Client
      \<and> \<not> js_ge (msgCount (clientStatus off)) MAX_MESSAGES_BEFORE_LOCK
      \<and> \<not> (formRendered off \<and> \<not> sendDisabled off)
      \<and> chats (snd (handleSendMessage (\<lambda>n. True) (off, b))) p =
          [(1, sampleMessage),
           (2, \<lparr>msg_text = ''yo'', senderId = HARDCODED_CLIENT_ID, timestamp = 100\<rparr>)]"
proof -
  let ?lim = "sampleSession HARDCODED_CLIENT_ID ''yo'' 3"
  let ?off = "(sampleSession HARDCODED_CLIENT_ID ''yo'' 0)\<lparr>clientStatus := initialClientStatus\<rparr>"
  let ?b = "sampleBackend HARDCODED_CLIENT_ID 3"
  let ?p = "getChatCollectionPath ''app'' HARDCODED_CLIENT_ID HARDCODED_CLIENT_ID"
  have r: "userRole ?off = Some Client"
    using sample_client_role [of "''yo''" 0] by simp
  have g: "js_ge (msgCount (clientStatus ?lim)) MAX_MESSAGES_BEFORE_LOCK"
    "\<not> js_ge (msgCount (clientStatus ?off)) MAX_MESSAGES_BEFORE_LOCK"
    by (simp_all add: sampleSession_def sampleStatus_def initialClientStatus_def
          MAX_MESSAGES_BEFORE_LOCK_def)
  have t: "trim ''yo'' = ''yo''"
    by (simp add: trim_def is_space_def)
  have u: "toUpperCase ''yo'' \<noteq> SPECIAL_CODE"
    by (simp add: toUpperCase_def SPECIAL_CODE_def)
  have h: "db ?off" "userId ?off = Some HARDCODED_CLIENT_ID" "HARDCODED_CLIENT_ID \<noteq> []"
    "trim (newMessage ?off) \<noteq> []" "\<not> loading ?off" "truthy (userId ?off)"
    "\<not> isLoggedIn (clientStatus ?off)" "appId ?off = ''app''" "clock ?off = 100"
    "newMessage ?off = ''yo''"
    by (simp_all add: sampleSession_def t truthy_def initialClientStatus_def
          HARDCODED_CLIENT_ID_def)
  have 1: "snd (handleSendMessage (\<lambda>n. True) (?lim, ?b)) = ?b"
    using client_send_permission [OF sample_client_role, of "''yo''" 3 "\<lambda>n. True" ?b] g(1)
    by simp
  have 2: "\<not> (formRendered ?off \<and> \<not> sendDisabled ?off)"
    using client_send_permission [OF r, of "\<lambda>n. True" ?b] h(5) h(6) h(7) by blast
  have "chats (snd (handleSendMessage (\<lambda>n. True) (?off, ?b))) =
          (chats ?b)(?p := chats ?b ?p @
             [(freshId (chats ?b ?p),
               \<lparr>msg_text = ''yo'', senderId = HARDCODED_CLIENT_ID, timestamp = 100\<rparr>)])"
    using client_send_permission [OF r, of "\<lambda>n. True" ?b HARDCODED_CLIENT_ID]
      g(2) h(1) h(2) h(3) h(4) u
    by (simp add: Let_def h(8) h(9) h(10) t)
  then have 3: "chats (snd (handleSendMessage (\<lambda>n. True) (?off, ?b))) ?p =
          [(1, sampleMessage),
           (2, \<lparr>msg_text = ''yo'', senderId = HARDCODED_CLIENT_ID, timestamp = 100\<rparr>)]"
    by (simp add: sampleBackend_def freshId_def)
  show ?thesis
    unfolding Let_def
    using sample_client_role [of "''yo''" 3] r g 1 2 3 by blast
qed

text \<open>
  Claim C7 as it is written fails at the handler. A client whose status says
  \<^verbatim>\<open>isLoggedIn = false\<close> (counter 0), and a client whose status has no \<^verbatim>\<open>msgCount\<close>
  field (so that \<^verbatim>\<open>msgCount < 3\<close> is false): in both cases \<^verbatim>\<open>canClientSend\<close> is false
  and \<^verbatim>\<open>handleSendMessage\<close> still adds the message to the conversation.
\<close>

theorem client_send_without_login_counterexample:
  "let off = (sampleSession HARDCODED_CLIENT_ID ''yo'' 0)\<lparr>clientStatus := initialClientStatus\<rparr>;
       nocount = (sampleSession HARDCODED_CLIENT_ID ''yo'' 0)
                   \<lparr>clientStatus := (sampleStatus 0)\<lparr>msgCount := Undefined\<rparr>\<rparr>;
       b = sampleBackend HARDCODED_CLIENT_ID 0;
       p = getChatCollectionPath ''app'' HARDCODED_CLIENT_ID HARDCODED_CLIENT_ID;
       sent = [(1, sampleMessage),
               (2, \<lparr>msg_text = ''yo'', senderId = HARDCODED_CLIENT_ID, timestamp = 100\<rparr>)]
   in userRole off = Some Client
      \<and> \<not> isLoggedIn (clientStatus off)
      \<and> \<not> canClientSend off
      \<and> chats b p = [(1, sampleMessage)]
      \<and> chats (snd (handleSendMessage (\<lambda>n. True) (off, b))) p = sent
      \<and> userRole nocount = Some Client
      \<and> \<not> js_lt (msgCount (clientStatus nocount)) MAX_MESSAGES_BEFORE_LOCK
      \<and> \<not> canClientSend nocount
      \<and> chats (snd (handleSendMessage (\<lambda>n. True) (nocount, b))) p = sent"
proof -
  let ?off = "(sampleSession HARDCODED_CLIENT_ID ''yo'' 0)\<lparr>clientStatus := initialClientStatus\<rparr>"
  let ?nocount = "(sampleSession HARDCODED_CLIENT_ID ''yo'' 0)
                   \<lparr>clientStatus := (sampleStatus 0)\<lparr>msgCount := Undefined\<rparr>\<rparr>"
  let ?b = "sampleBackend HARDCODED_CLIENT_ID 0"
  let ?p = "getChatCollectionPath ''app'' HARDCODED_CLIENT_ID HARDCODED_CLIENT_ID"
  have r: "userRole ?off = Some Client" "userRole ?nocount = Some Client"
    using sample_client_role [of "''yo''" 0] by simp_all
  have t: "trim ''yo'' = ''yo''"
    by (simp add: trim_def is_space_def)
  have u: "toUpperCase ''yo'' \<noteq> SPECIAL_CODE"
    by (simp add: toUpperCase_def SPECIAL_CODE_def)
  have c: "\<not> isLoggedIn (clientStatus ?off)" "\<not> canClientSend ?off"
    "\<not> js_lt (msgCount (clientStatus ?nocount)) MAX_MESSAGES_BEFORE_LOCK"
    "\<not> canClientSend ?nocount"
    by (simp_all add: canClientSend_def initialClientStatus_def MAX_MESSAGES_BEFORE_LOCK_def
          js_int_def)
  have g: "\<not> js_ge (msgCount (clientStatus ?off)) MAX_MESSAGES_BEFORE_LOCK"
    "\<not> js_ge (msgCount (clientStatus ?nocount)) MAX_MESSAGES_BEFORE_LOCK"
    by (simp_all add: initialClientStatus_def MAX_MESSAGES_BEFORE_LOCK_def js_int_def)
  have h: "db ?off" "userId ?off = Some HARDCODED_CLIENT_ID" "HARDCODED_CLIENT_ID \<noteq> []"
    "trim (newMessage ?off) \<noteq> []" "appId ?off = ''app''" "clock ?off = 100"
    "newMessage ?off = ''yo''"
    "db ?nocount" "userId ?nocount = Some HARDCODED_CLIENT_ID"
    "trim (newMessage ?nocount) \<noteq> []" "appId ?nocount = ''app''" "clock ?nocount = 100"
    "newMessage ?nocount = ''yo''"
    by (simp_all add: sampleSession_def t HARDCODED_CLIENT_ID_def)
  have b0: "chats ?b ?p = [(1, sampleMessage)]"
    by (simp add: sampleBackend_def)
  have 1: "chats (snd (handleSendMessage (\<lambda>n. True) (?off, ?b))) ?p =
          [(1, sampleMessage),
           (2, \<lparr>msg_text = ''yo'', senderId = HARDCODED_CLIENT_ID, timestamp = 100\<rparr>)]"
    using normal_send_eq [OF h(1) h(2) h(3) r(1) h(4), of "\<lambda>n. True" ?b] g(1) u
    by (simp add: h(5) h(6) h(7) t commit_message_and_status b0 freshId_def)
  have 2: "chats (snd (handleSendMessage (\<lambda>n. True) (?nocount, ?b))) ?p =
          [(1, sampleMessage),
           (2, \<lparr>msg_text = ''yo'', senderId = HARDCODED_CLIENT_ID, timestamp = 100\<rparr>)]"
    using normal_send_eq [OF h(8) h(9) h(3) r(2) h(10), of "\<lambda>n. True" ?b] g(2) u
    by (simp add: h(11) h(12) h(13) t commit_message_and_status b0 freshId_def)
  show ?thesis
    unfolding Let_def
    using r c b0 1 2 by blast
qed

section \<open>Login, logout and the deletion of chat data\<close>

text \<open>
  \<^verbatim>\<open>deleteClientChatData\<close> calls \<^verbatim>\<open>getDocs\<close>, which the module does not import: the
  call raises inside the \<^verbatim>\<open>try\<close> block, the handler logs the error, and neither the batch
  of deletions nor \<^verbatim>\<open>deleteDoc\<close> is reached (lemma \<open>deleteClientChatData_eq\<close>).
\<close>

lemma handleLogout_eq:
  "handleLogout ok (a, b) =
     (if auth a then
        (if ok (length (requests b))
         then ((if db a \<and> userId a = Some HARDCODED_CLIENT_ID
                then put_console ''Client successfully logged out and data deleted.''
                       (if truthy (or_else (masterId a) (userId a)) \<and> truthy (userId a)
                        then put_console ''Error deleting client chat data:'' a else a)
                else a)\<lparr>userId := None, userRole := None\<rparr>,
               b\<lparr>requests := requests b @ [SignOut], authUser := None\<rparr>)
         else (a, b\<lparr>requests := requests b @ [SignOut]\<rparr>))
      else (a\<lparr>userId := None, userRole := None\<rparr>, b))"
  by (simp add: handleLogout_def send_request_def deleteClientChatData_eq Let_def)

lemma handleLogout_documents:
  "chats (snd (handleLogout ok (a, b))) = chats b \<and>
   statusDocs (snd (handleLogout ok (a, b))) = statusDocs b \<and>
   requests (snd (handleLogout ok (a, b))) = requests b @ (if auth a then [SignOut] else [])"
  by (simp add: handleLogout_eq)

lemma handleLogout_session:
  "timers (fst (handleLogout ok (a, b))) = timers a \<and>
   clock (fst (handleLogout ok (a, b))) = clock a \<and>
   count_list (console (fst (handleLogout ok (a, b))))
       ''Touch timer expired. Initiating auto-logout.''
     = count_list (console a) ''Touch timer expired. Initiating auto-logout.''"
  by (simp add: handleLogout_eq put_console_def)

lemma handleLogin_client:
  assumes "userRole a = Some Client" and "db a" and "userId a = Some uid" and "uid \<noteq> []"
  shows "let sp = getStatusDocPath (appId a) uid;
             d = \<lparr>isLoggedIn = True, msgCount = js_int 0, forceLogout = False,
                  lastLogin = Some (clock a)\<rparr>;
             b' = snd (handleLogin ok (a, b))
         in requests b' = requests b @ [Commit [SetStatus sp d]]
            \<and> chats b' = chats b
            \<and> statusDocs b' = (if ok (length (requests b)) then (statusDocs b)(sp \<mapsto> d) else statusDocs b)"
  using assms masterId_role [OF assms(1)]
  by (simp add: handleLogin_def deleteClientChatData_eq truthy_def send_request_def Let_def)

text \<open>
  Claim C8. A client logs in over a conversation that holds one message. The status
  document is reset to \<^verbatim>\<open>isLoggedIn = true\<close>, \<^verbatim>\<open>msgCount = 0\<close>,
  \<^verbatim>\<open>forceLogout = false\<close> with the login time, but the message is still in the
  conversation: the only request sent is the batch with the status document.
\<close>

theorem login_keeps_messages:
  "let a = sampleSession HARDCODED_CLIENT_ID [] 2;
       b = sampleBackend HARDCODED_CLIENT_ID 2;
       sp = getStatusDocPath ''app'' HARDCODED_CLIENT_ID;
       d = \<lparr>isLoggedIn = True, msgCount = js_int 0, forceLogout = False, lastLogin = Some 100\<rparr>;
       w = handleLogin (\<lambda>n. True) (a, b)
   in requests (snd w) = [Commit [SetStatus sp d]]
      \<and> statusDocs (snd w) sp = Some d
      \<and> chats (snd w) (getChatCollectionPath ''app'' HARDCODED_CLIENT_ID HARDCODED_CLIENT_ID)
          = [(1, sampleMessage)]
      \<and> console (fst w) =
          [''Error deleting client chat data:'',
           ''Client chat data reset/deleted on successful login.'',
           ''Login status updated.'']"
proof -
  let ?a = "sampleSession HARDCODED_CLIENT_ID [] 2"
  have m: "masterId ?a = Some HARDCODED_CLIENT_ID"
    using masterId_role [OF sample_client_role, of "[]" 2] by (simp add: sampleSession_def)
  have h: "db ?a" "userId ?a = Some HARDCODED_CLIENT_ID" "appId ?a = ''app''" "clock ?a = 100"
    "console ?a = []"
    by (simp_all add: sampleSession_def)
  have t: "truthy (Some HARDCODED_CLIENT_ID)"
    by (simp add: truthy_def HARDCODED_CLIENT_ID_def)
  show ?thesis
    by (simp add: handleLogin_def deleteClientChatData_eq send_request_def Let_def
          sample_client_role m h t put_console_def sampleBackend_def)
qed

theorem login_keeps_messages_witness:
  "chats (snd (handleLogin (\<lambda>n. True)
                 (sampleSession HARDCODED_CLIENT_ID [] 2, sampleBackend HARDCODED_CLIENT_ID 2)))
     (getChatCollectionPath ''app'' HARDCODED_CLIENT_ID HARDCODED_CLIENT_ID)
   = chats (sampleBackend HARDCODED_CLIENT_ID 2)
       (getChatCollectionPath ''app'' HARDCODED_CLIENT_ID HARDCODED_CLIENT_ID)"
  using login_keeps_messages
  by (simp add: Let_def sampleBackend_def)

text \<open>
  Claim C2. A client session receives a status snapshot with \<^verbatim>\<open>forceLogout = true\<close>
  while its conversation holds one message. The session signs out and forgets its user,
  but the only request sent is the sign-out: the message and the status document are still
  in the store.
\<close>

theorem forced_logout_keeps_documents:
  "let st = (sampleStatus 1)\<lparr>forceLogout := True\<rparr>;
       sp = getStatusDocPath ''app'' HARDCODED_CLIENT_ID;
       a = sampleSession HARDCODED_CLIENT_ID [] 1;
       b = (sampleBackend HARDCODED_CLIENT_ID 1)\<lparr>statusDocs := [sp \<mapsto> st]\<rparr>;
       w = onStatusSnapshot (\<lambda>n. True) (Some st) (a, b)
   in userId (fst w) = None \<and> authUser (snd w) = None
      \<and> requests (snd w) = [SignOut]
      \<and> chats (snd w) (getChatCollectionPath ''app'' HARDCODED_CLIENT_ID HARDCODED_CLIENT_ID)
          = [(1, sampleMessage)]
      \<and> statusDocs (snd w) sp = Some st
      \<and> console (fst w) =
          [''Master initiated forced logout.'', ''Error deleting client chat data:'',
           ''Client successfully logged out and data deleted.'']"
proof -
  let ?a = "sampleSession HARDCODED_CLIENT_ID [] 1"
  have m: "masterId ?a = Some HARDCODED_CLIENT_ID"
    using masterId_role [OF sample_client_role, of "[]" 1] by (simp add: sampleSession_def)
  have h: "db ?a" "auth ?a" "userId ?a = Some HARDCODED_CLIENT_ID" "appId ?a = ''app''"
    "console ?a = []"
    by (simp_all add: sampleSession_def)
  have t: "truthy (Some HARDCODED_CLIENT_ID)"
    by (simp add: truthy_def HARDCODED_CLIENT_ID_def)
  show ?thesis
    by (simp add: onStatusSnapshot_def handleLogout_eq Let_def sample_client_role m h t
          put_console_def sampleBackend_def sampleStatus_def masterId_def or_else_def)
qed

theorem forced_logout_keeps_documents_witness:
  "statusDocs
     (snd (onStatusSnapshot (\<lambda>n. True) (Some ((sampleStatus 1)\<lparr>forceLogout := True\<rparr>))
             (sampleSession HARDCODED_CLIENT_ID [] 1,
              (sampleBackend HARDCODED_CLIENT_ID 1)
                \<lparr>statusDocs := [getStatusDocPath ''app'' HARDCODED_CLIENT_ID
                                 \<mapsto> (sampleStatus 1)\<lparr>forceLogout := True\<rparr>]\<rparr>)))
     (getStatusDocPath ''app'' HARDCODED_CLIENT_ID)
   \<noteq> None"
  using forced_logout_keeps_documents
  by (simp add: Let_def)

section \<open>The press-and-hold control\<close>

lemma handleTouchStart_client:
  "userRole a = Some Client \<Longrightarrow>
   handleTouchStart (a, b) =
     (a\<lparr>isTouching := True, timers := timers a @ [(nextTimer a, clock a + 3000)],
        nextTimer := Suc (nextTimer a), touchTimerRef := Some (nextTimer a)\<rparr>, b)"
  by (simp add: handleTouchStart_def setTimeout_def)

lemma advance_no_timers:
  "timers a = [] \<Longrightarrow> advance ok t (a, b) = (a\<lparr>clock := max (clock a) t\<rparr>, b)"
  by (simp add: advance_def)

text \<open>
  A press made while no timeout is pending behaves as intended: released before 3000 ms
  have passed, the timeout is cancelled and nothing ever fires; held until 3000 ms or more
  have passed, the callback runs exactly once.
\<close>

lemma single_press_cancel_or_fire_once:
  assumes "userRole a = Some Client" and "timers a = []"
  shows "(clock a \<le> t1 \<and> t1 < clock a + 3000 \<longrightarrow>
            (let w = handleTouchEnd (advance ok t1 (handleTouchStart (a, b)))
             in timers (fst w) = []
                \<and> (\<forall>t. console (fst (advance ok t w)) = console a
                        \<and> snd (advance ok t w) = b
                        \<and> userId (fst (advance ok t w)) = userId a)))
      \<and> (clock a + 3000 \<le> t2 \<longrightarrow>
            (let w = advance ok t2 (handleTouchStart (a, b))
             in count_list (console (fst w)) ''Touch timer expired. Initiating auto-logout.''
                  = count_list (console a) ''Touch timer expired. Initiating auto-logout.'' + 1
                \<and> requests (snd w) = requests b @ (if auth a then [SignOut] else [])
                \<and> timers (fst w) = []
                \<and> (\<forall>t. console (fst (advance ok t w)) = console (fst w)
                        \<and> snd (advance ok t w) = snd w)))"
proof (intro conjI impI)
  assume h: "clock a \<le> t1 \<and> t1 < clock a + 3000"
  let ?a1 = "a\<lparr>isTouching := True, timers := [(nextTimer a, clock a + 3000)],
        nextTimer := Suc (nextTimer a), touchTimerRef := Some (nextTimer a)\<rparr>"
  have s: "handleTouchStart (a, b) = (?a1, b)"
    using assms by (simp add: handleTouchStart_client)
  have adv: "advance ok t1 (?a1, b) = (?a1\<lparr>clock := t1\<rparr>, b)"
    using h by (simp add: advance_def max_def)
  have e: "handleTouchEnd (?a1\<lparr>clock := t1\<rparr>, b)
             = (?a1\<lparr>clock := t1, timers := [], isTouching := False\<rparr>, b)"
    using assms by (simp add: handleTouchEnd_def clearTimeout_def)
  show "let w = handleTouchEnd (advance ok t1 (handleTouchStart (a, b)))
        in timers (fst w) = []
           \<and> (\<forall>t. console (fst (advance ok t w)) = console a
                   \<and> snd (advance ok t w) = b
                   \<and> userId (fst (advance ok t w)) = userId a)"
    by (simp add: s adv e advance_no_timers Let_def)
next
  assume h: "clock a + 3000 \<le> t2"
  let ?a1 = "a\<lparr>isTouching := True, timers := [(nextTimer a, clock a + 3000)],
        nextTimer := Suc (nextTimer a), touchTimerRef := Some (nextTimer a)\<rparr>"
  let ?a2 = "put_console ''Touch timer expired. Initiating auto-logout.''
               (?a1\<lparr>timers := [], clock := clock a + 3000\<rparr>)"
  let ?w = "handleLogout ok (?a2, b)"
  have s: "handleTouchStart (a, b) = (?a1, b)"
    using assms by (simp add: handleTouchStart_client)
  have adv: "advance ok t2 (?a1, b) = ((fst ?w)\<lparr>clock := max (clock (fst ?w)) t2\<rparr>, snd ?w)"
    using h by (simp add: advance_def touchTimerExpired_def max_def split: prod.splits)
  have tm: "timers (fst ?w) = []"
    using handleLogout_session [of ok ?a2 b] by (simp add: put_console_def)
  have cnt: "count_list (console (fst ?w)) ''Touch timer expired. Initiating auto-logout.''
               = count_list (console a) ''Touch timer expired. Initiating auto-logout.'' + 1"
    using handleLogout_session [of ok ?a2 b] by (simp add: put_console_def)
  have rq: "requests (snd ?w) = requests b @ (if auth a then [SignOut] else [])"
    using handleLogout_documents [of ok ?a2 b] by (simp add: put_console_def)
  show "let w = advance ok t2 (handleTouchStart (a, b))
        in count_list (console (fst w)) ''Touch timer expired. Initiating auto-logout.''
             = count_list (console a) ''Touch timer expired. Initiating auto-logout.'' + 1
           \<and> requests (snd w) = requests b @ (if auth a then [SignOut] else [])
           \<and> timers (fst w) = []
           \<and> (\<forall>t. console (fst (advance ok t w)) = console (fst w)
                   \<and> snd (advance ok t w) = snd w)"
    unfolding s adv Let_def
    using tm cnt rq by (simp add: advance_no_timers)
qed

text \<open>
  Claim C6. \<^verbatim>\<open>handleTouchStart\<close> stores the new timeout's identifier over the old one
  without clearing the old timeout, and \<^verbatim>\<open>handleTouchEnd\<close> clears only the stored one. A
  client presses at 100 ms and again at 600 ms (a second finger, or a mouse press after a
  touch), and releases at 1100 ms: the first timeout is still pending and logs the client
  out at 3100 ms, although the control was released well before 3 seconds had passed. When
  the control is held instead, both timeouts run and the logout is triggered twice.
\<close>

theorem second_press_leaks_timeout:
  "let a = sampleSession HARDCODED_CLIENT_ID [] 1;
       b = sampleBackend HARDCODED_CLIENT_ID 1;
       ok = (\<lambda>n. True);
       pressed = handleTouchStart (advance ok 600 (handleTouchStart (a, b)));
       released = handleTouchEnd (advance ok 1100 pressed);
       later = advance ok 3100 released;
       held = advance ok 3600 pressed
   in clock a = 100
      \<and> timers (fst pressed) = [(0, 3100), (1, 3600)]
      \<and> timers (fst released) = [(0, 3100)]
      \<and> console (fst later) =
          [''Touch timer expired. Initiating auto-logout.'',
           ''Error deleting client chat data:'',
           ''Client successfully logged out and data deleted.'']
      \<and> requests (snd later) = [SignOut]
      \<and> userId (fst later) = None
      \<and> count_list (console (fst held)) ''Touch timer expired. Initiating auto-logout.'' = 2
      \<and> requests (snd held) = [SignOut, SignOut]"
proof -
  let ?a = "sampleSession HARDCODED_CLIENT_ID [] 1"
  let ?b = "sampleBackend HARDCODED_CLIENT_ID 1"
  let ?ok = "\<lambda>n::nat. True"
  let ?a1 = "?a\<lparr>isTouching := True, timers := [(0, 3100)], nextTimer := 1,
                 touchTimerRef := Some 0\<rparr>"
  let ?a2 = "?a\<lparr>isTouching := True, timers := [(0, 3100), (1, 3600)], nextTimer := 2,
                 touchTimerRef := Some 1, clock := 600\<rparr>"
  let ?a3 = "?a\<lparr>isTouching := False, timers := [(0, 3100)], nextTimer := 2,
                 touchTimerRef := Some 1, clock := 1100\<rparr>"
  have h: "clock ?a = 100" "timers ?a = []" "nextTimer ?a = 0" "console ?a = []" "auth ?a"
    "db ?a" "userId ?a = Some HARDCODED_CLIENT_ID" "requests ?b = []"
    by (simp_all add: sampleSession_def sampleBackend_def)
  have role: "userRole ?a = Some Client"
    by (rule sample_client_role)
  have t: "truthy (Some HARDCODED_CLIENT_ID)"
    by (simp add: truthy_def HARDCODED_CLIENT_ID_def)
  have m: "masterId ?a = Some HARDCODED_CLIENT_ID"
    using masterId_role [OF role] h(7) by simp
  have p1: "handleTouchStart (?a, ?b) = (?a1, ?b)"
    by (simp add: handleTouchStart_client [OF role] h)
  have v1: "advance ?ok 600 (?a1, ?b) = (?a1\<lparr>clock := 600\<rparr>, ?b)"
    by (simp add: advance_def h)
  have p2: "handleTouchStart (?a1\<lparr>clock := 600\<rparr>, ?b) = (?a2, ?b)"
    by (simp add: handleTouchStart_def setTimeout_def role h)
  have v2: "advance ?ok 1100 (?a2, ?b) = (?a2\<lparr>clock := 1100\<rparr>, ?b)"
    by (simp add: advance_def)
  have e: "handleTouchEnd (?a2\<lparr>clock := 1100\<rparr>, ?b) = (?a3, ?b)"
    by (simp add: handleTouchEnd_def clearTimeout_def role)
  have pressed: "handleTouchStart (advance ?ok 600 (handleTouchStart (?a, ?b))) = (?a2, ?b)"
    by (simp only: p1 v1 p2)
  have released: "handleTouchEnd (advance ?ok 1100 (?a2, ?b)) = (?a3, ?b)"
    by (simp only: v2 e)
  have later: "console (fst (advance ?ok 3100 (?a3, ?b))) =
          [''Touch timer expired. Initiating auto-logout.'',
           ''Error deleting client chat data:'',
           ''Client successfully logged out and data deleted.'']
      \<and> requests (snd (advance ?ok 3100 (?a3, ?b))) = [SignOut]
      \<and> userId (fst (advance ?ok 3100 (?a3, ?b))) = None"
    by (simp add: advance_def touchTimerExpired_def handleLogout_eq put_console_def h m t
          masterId_def or_else_def role)
  have held: "count_list (console (fst (advance ?ok 3600 (?a2, ?b))))
                ''Touch timer expired. Initiating auto-logout.'' = 2
      \<and> requests (snd (advance ?ok 3600 (?a2, ?b))) = [SignOut, SignOut]"
    by (simp add: advance_def touchTimerExpired_def handleLogout_eq put_console_def h m t
          masterId_def or_else_def role)
  show ?thesis
    unfolding Let_def pressed released
    using h(1) later held by simp
qed

theorem second_press_leaks_timeout_witness:
  "userId (fst (advance (\<lambda>n. True) 3100
      (handleTouchEnd (advance (\<lambda>n. True) 1100
         (handleTouchStart (advance (\<lambda>n. True) 600
            (handleTouchStart (sampleSession HARDCODED_CLIENT_ID [] 1,
                               sampleBackend HARDCODED_CLIENT_ID 1)))))))) = None"
  using second_press_leaks_timeout
  by (simp add: Let_def)

end
